theory Spec2Isabelle
  imports Complex_Main
begin

section \<open>Data model (discogs/models.py)\<close>

text \<open>
  Exceptions are values. \<open>DatabaseError\<close> is what an ORM call raises when the
  database cannot answer (lost connection, aborted transaction); \<open>DoesNotExist\<close> and
  \<open>IntegrityError\<close> are the ORM's answers to \<open>get\<close> without a row and to
  \<open>create\<close> against the unique date; \<open>ValueError\<close> is raised by numpy, by
  scikit-learn and by a negative queryset slice.
\<close>

datatype error =
    ValueError | IndexError | DatabaseError | DoesNotExist | IntegrityError
  | MultipleObjectsReturned | ListingDoesNotExist

text \<open>The \<open>Record\<close> model: the fields the selector reads.\<close>

record record_row =
  artist :: string
  title :: string
  label :: string
  wants :: int
  haves :: int
  added :: int
  genres :: "string list"
  styles :: "string list"
  year :: "int option"

text \<open>
  The \<open>Listing\<close> model. \<open>score\<close> and \<open>record_price\<close> are
  \<open>DecimalField\<close>s, read through \<open>float(...)\<close>: reals here. \<open>added\<close> of the
  record is a timestamp in seconds.
\<close>

record listing =
  listing_id :: nat
  listing_record :: record_row
  record_price :: real
  score :: real
  evaluated :: bool

text \<open>
  The \<open>RecordOfTheDay\<close> model: one row per persisted daily selection, \<open>date\<close>
  unique. The foreign key \<open>listing\<close> is held as the listing's primary key.
\<close>

record record_of_the_day =
  date :: int
  rotd_listing :: nat
  model_score :: real
  entropy_measure :: real
  system_temperature :: real
  utility_term :: "real option"
  entropy_term :: "real option"
  free_energy :: "real option"
  selection_probability :: "real option"
  total_candidates :: "int option"
  cluster_count :: "int option"
  selection_method :: string
  average_desirability :: real
  average_novelty :: real

text \<open>
  The ORM calls of the selector and of the dashboard view, by the place they stand at. A
  database is its two tables and the set of calls that currently raise
  \<open>DatabaseError\<close>.
\<close>

datatype query =
    EligibleListings | RecentListings | SimilarSelections | PastSelections | FallbackListing
  | GetSelection | DeleteSelection | CreateSelection | ViewFallbackListing

record database =
  listings :: "listing list"
  selections :: "record_of_the_day list"
  failing :: "query \<Rightarrow> bool"

definition run_query :: "database \<Rightarrow> query \<Rightarrow> 'a \<Rightarrow> error + 'a" where
  "run_query db q rows = (if failing db q then Inl DatabaseError else Inr rows)"

text \<open>
  \<open>order_by('-score')\<close>: descending by score; rows of equal score keep the order of
  the table (the database leaves their order open).
\<close>

definition order_by_score_desc :: "listing list \<Rightarrow> listing list" where
  "order_by_score_desc ls = sort_key (\<lambda>l. - score l) ls"

text \<open>\<open>Meta.ordering = ['-date']\<close> of \<open>RecordOfTheDay\<close>.\<close>

definition order_by_date_desc :: "record_of_the_day list \<Rightarrow> record_of_the_day list" where
  "order_by_date_desc rs = sort_key (\<lambda>r. - date r) rs"

text \<open>\<open>RecordOfTheDay.objects.all()[:10]\<close>, evaluated by the \<open>sum\<close> over it.\<close>

definition past_records :: "database \<Rightarrow> error + record_of_the_day list" where
  "past_records db = run_query db PastSelections (take 10 (order_by_date_desc (selections db)))"

section \<open>numpy\<close>

definition np_clip :: "real \<Rightarrow> real \<Rightarrow> real \<Rightarrow> real" where
  "np_clip x lo hi = min hi (max x lo)"

definition np_mean :: "real list \<Rightarrow> real" where
  "np_mean xs = sum_list xs / real (length xs)"

definition np_var :: "real list \<Rightarrow> real" where
  "np_var xs = np_mean (map (\<lambda>x. (x - np_mean xs)\<^sup>2) xs)"

definition np_std :: "real list \<Rightarrow> real" where
  "np_std xs = sqrt (np_var xs)"

section \<open>The selector (discogs/utils/thermodynamic\_recommendation.py)\<close>

subsection \<open>\<open>_calculate_system_temperature\<close>\<close>

definition unevaluated_ratio :: "listing list \<Rightarrow> real" where
  "unevaluated_ratio eligible_listings =
     real (length (filter (\<lambda>l. \<not> evaluated l) eligible_listings))
       / real (max (length eligible_listings) 1)"

definition positive_scores :: "listing list \<Rightarrow> real list" where
  "positive_scores eligible_listings = map score (filter (\<lambda>l. score l > 0) eligible_listings)"

definition uncertainty_factor :: "listing list \<Rightarrow> real" where
  "uncertainty_factor eligible_listings =
     (let scores = positive_scores eligible_listings in
      if scores \<noteq> [] then min (np_std scores / (np_mean scores + 1 / 10 ^ 6)) 1
      else 1 / 2)"

text \<open>
  The body of the \<open>try\<close>. The variable the source calls \<open>avg_desirability\<close> is the
  \<open>sum\<close> of the rows' \<open>average_desirability\<close>.
\<close>

definition system_temperature_body :: "database \<Rightarrow> listing list \<Rightarrow> error + real" where
  "system_temperature_body db eligible_listings =
     (let base_temperature = 1 / 2;
          exploration_boost = 3 / 10 * unevaluated_ratio eligible_listings
                              + 2 / 10 * uncertainty_factor eligible_listings
      in case past_records db of
           Inl e \<Rightarrow> Inl e
         | Inr rows \<Rightarrow>
             (let avg_desirability = sum_list (map average_desirability rows);
                  temperature = (base_temperature + exploration_boost)
                                * (1 + 2 / 10 * avg_desirability)
              in Inr (np_clip temperature (1 / 10) 1)))"

definition calculate_system_temperature :: "database \<Rightarrow> listing list \<Rightarrow> real" where
  "calculate_system_temperature db eligible_listings =
     (case system_temperature_body db eligible_listings of
        Inr temperature \<Rightarrow> temperature
      | Inl e \<Rightarrow> 1 / 2)"

subsection \<open>\<open>_calculate_free_energy\<close>\<close>

text \<open>
  Returns \<open>(free_energy, utility, entropy_term)\<close>. Nothing in the \<open>try\<close> raises on
  a listing and two floats, so the handler's \<open>(0.0, 0.0, 0.0)\<close> is never returned.
\<close>

definition calculate_free_energy :: "listing \<Rightarrow> real \<Rightarrow> real \<Rightarrow> real \<times> real \<times> real" where
  "calculate_free_energy l entropy temperature =
     (let utility = (if score l > 0 then - score l else - 1);
          entropy_term' = temperature * entropy;
          free_energy' = utility - entropy_term'
      in (free_energy', utility, entropy_term'))"

subsection \<open>numpy's random generator\<close>

text \<open>
  The process-wide generator is the stream of the uniform samples of \<open>[0, 1)\<close> it
  will hand out; drawing one shifts the stream. \<open>np.random.uniform(lo, hi)\<close> is
  \<open>lo + (hi - lo) * random_sample()\<close>.
\<close>

type_synonym rng = "nat \<Rightarrow> real"

definition random_sample :: "rng \<Rightarrow> real \<times> rng" where
  "random_sample g = (g 0, \<lambda>n. g (Suc n))"

definition np_random_uniform :: "real \<Rightarrow> real \<Rightarrow> rng \<Rightarrow> real \<times> rng" where
  "np_random_uniform lo hi g = (case random_sample g of (u, g') \<Rightarrow> (lo + (hi - lo) * u, g'))"

fun cumsum_from :: "real \<Rightarrow> real list \<Rightarrow> real list" where
  "cumsum_from acc [] = []"
| "cumsum_from acc (x # xs) = (acc + x) # cumsum_from (acc + x) xs"

definition np_cumsum :: "real list \<Rightarrow> real list" where
  "np_cumsum xs = cumsum_from 0 xs"

text \<open>\<open>cdf.searchsorted(u, side='right')\<close> on an ascending array: the entries \<open>\<le> u\<close>.\<close>

definition searchsorted_right :: "real list \<Rightarrow> real \<Rightarrow> nat" where
  "searchsorted_right cdf u = length (takeWhile (\<lambda>c. c \<le> u) cdf)"

text \<open>
  \<open>np.random.choice(n, p=p)\<close>: \<open>ValueError\<close> for \<open>n = 0\<close>, for a \<open>p\<close> of
  another length, with a negative entry or not summing to one (within \<open>1.5e-8\<close>);
  otherwise the index where the sample falls in the normalised cumulative sums. The
  checks come before the draw: a refused call leaves the generator as it was.
\<close>

definition np_random_choice_p :: "nat \<Rightarrow> real list \<Rightarrow> rng \<Rightarrow> error + nat \<times> rng" where
  "np_random_choice_p n p g =
     (if n = 0 then Inl ValueError
      else if length p \<noteq> n then Inl ValueError
      else if list_ex (\<lambda>x. x < 0) p then Inl ValueError
      else if \<bar>sum_list p - 1\<bar> > 15 / 10 ^ 9 then Inl ValueError
      else (let cdf = np_cumsum p;
                cdf = map (\<lambda>c. c / last cdf) cdf
            in case random_sample g of (u, g') \<Rightarrow> Inr (searchsorted_right cdf u, g')))"

text \<open>
  \<open>np.random.choice(a)\<close> on a list: \<open>ValueError\<close> when it is empty, otherwise the
  element at a uniformly drawn index, here the one the next sample scales to.
\<close>

definition np_random_choice :: "'a list \<Rightarrow> rng \<Rightarrow> error + 'a \<times> rng" where
  "np_random_choice a g =
     (if a = [] then Inl ValueError
      else case random_sample g of
             (u, g') \<Rightarrow> Inr (a ! nat \<lfloor>u * real (length a)\<rfloor>, g'))"

subsection \<open>\<open>_boltzmann_sampling\<close>\<close>

definition boltzmann_weights :: "real list \<Rightarrow> real \<Rightarrow> real list" where
  "boltzmann_weights free_energies temperature = map (\<lambda>f. exp (- f / temperature)) free_energies"

definition probabilities :: "real list \<Rightarrow> real list" where
  "probabilities ws = map (\<lambda>w. w / sum_list ws) ws"

text \<open>
  The body of the \<open>try\<close>. With \<open>temperature = 0\<close> every quotient is infinite or
  not a number, so is a probability, and \<open>np.random.choice\<close> refuses the vector with
  \<open>ValueError\<close>. (Floats are reals here: an overflow of \<open>exp\<close> at a small non-zero
  temperature, which ends the same way, is outside the model.)
\<close>

definition boltzmann_sampling_body ::
  "real list \<Rightarrow> nat list \<Rightarrow> real \<Rightarrow> rng \<Rightarrow> error + (nat \<times> real) \<times> rng" where
  "boltzmann_sampling_body free_energies listing_ids temperature g =
     (if temperature = 0 \<and> free_energies \<noteq> [] then Inl ValueError
      else (let ps = probabilities (boltzmann_weights free_energies temperature)
            in case np_random_choice_p (length listing_ids) ps g of
                 Inl e \<Rightarrow> Inl e
               | Inr (selected_idx, g') \<Rightarrow>
                   Inr ((listing_ids ! selected_idx, ps ! selected_idx), g')))"

text \<open>
  The handler evaluates \<open>np.random.choice(listing_ids)\<close> first, which raises on an
  empty list: that exception leaves the function.
\<close>

definition boltzmann_sampling ::
  "real list \<Rightarrow> nat list \<Rightarrow> real \<Rightarrow> rng \<Rightarrow> error + (nat \<times> real) \<times> rng" where
  "boltzmann_sampling free_energies listing_ids temperature g =
     (case boltzmann_sampling_body free_energies listing_ids temperature g of
        Inr r \<Rightarrow> Inr r
      | Inl e \<Rightarrow>
          (case np_random_choice listing_ids g of
             Inl e' \<Rightarrow> Inl e'
           | Inr (selected_id, g') \<Rightarrow> Inr ((selected_id, 1 / real (length listing_ids)), g')))"

subsection \<open>scikit-learn, and the selector's state\<close>

type_synonym matrix = "real list list"

text \<open>
  The estimators are outside the repository: what each call returns is a parameter. A
  fitted estimator is determined by the data it was fitted on, so the state of an
  estimator is that data (\<open>None\<close> before the first fit), and a \<open>transform\<close> takes it
  as its first argument. Every call may raise.
\<close>

record sklearn =
  tfidf_fit_transform :: "string list \<Rightarrow> error + matrix"
  tfidf_transform :: "string list \<Rightarrow> string list \<Rightarrow> error + matrix"
  scaler_fit_transform :: "matrix \<Rightarrow> error + matrix"
  scaler_transform :: "matrix \<Rightarrow> matrix \<Rightarrow> error + matrix"
  pca_fit_transform :: "matrix \<Rightarrow> error + matrix"
  pca_transform :: "matrix \<Rightarrow> matrix \<Rightarrow> error + matrix"
  kmeans_fit :: "matrix \<Rightarrow> error + matrix"

text \<open>
  \<open>ThermodynamicRecordSelector\<close>: the attributes \<open>__init__\<close> sets. The fitted
  \<open>cluster_model\<close> is read only through \<open>cluster_centers_\<close>, which
  \<open>cluster_centroids\<close> holds.
\<close>

record selector =
  vectorizer :: "string list option"
  scaler :: "matrix option"
  pca :: "matrix option"
  recent_listings_cache :: "listing list option"
  cluster_centroids :: "matrix option"
  feature_cache :: "matrix option"
  is_fitted :: bool

definition new_selector :: selector where
  "new_selector =
     \<lparr>vectorizer = None, scaler = None, pca = None, recent_listings_cache = None,
      cluster_centroids = None, feature_cache = None, is_fitted = False\<rparr>"

subsection \<open>\<open>_extract_listing_features\<close>\<close>

fun join_words :: "string list \<Rightarrow> string" where
  "join_words [] = []"
| "join_words [w] = w"
| "join_words (w # ws) = w @ '' '' @ join_words ws"

definition text_content :: "listing \<Rightarrow> string" where
  "text_content l =
     (let r = listing_record l
      in artist r @ '' '' @ title r @ '' '' @ label r @ '' '' @ join_words (genres r)
         @ '' '' @ join_words (styles r))"

text \<open>
  The columns of the data frame once \<open>listing_id\<close> is dropped: price, wants, haves,
  wants over haves, year, score. A year of \<open>None\<close> or \<open>0\<close> is falsy.
\<close>

definition numeric_features :: "listing \<Rightarrow> real list" where
  "numeric_features l =
     (let r = listing_record l;
          wants_haves_ratio = real_of_int (wants r) / real_of_int (max (haves r) 1);
          price_normalized = record_price l / 100
      in [price_normalized, real_of_int (wants r), real_of_int (haves r), wants_haves_ratio,
          real_of_int (case year r of None \<Rightarrow> 1970 | Some y \<Rightarrow> if y = 0 then 1970 else y),
          score l])"

definition extract_listing_features :: "listing list \<Rightarrow> matrix \<times> string list" where
  "extract_listing_features ls = (map numeric_features ls, map text_content ls)"

subsection \<open>\<open>_build_feature_vectors\<close>\<close>

text \<open>\<open>np.hstack\<close> of two matrices: row by row, \<open>ValueError\<close> when the row counts differ.\<close>

definition np_hstack :: "matrix \<Rightarrow> matrix \<Rightarrow> error + matrix" where
  "np_hstack a b = (if length a \<noteq> length b then Inl ValueError else Inr (map2 (@) a b))"

text \<open>\<open>self.vectorizer.transform\<close>, \<open>self.scaler.transform\<close>, \<open>self.pca.transform\<close>.\<close>

definition vectorizer_transform :: "sklearn \<Rightarrow> selector \<Rightarrow> string list \<Rightarrow> error + matrix" where
  "vectorizer_transform sk sel docs =
     (case vectorizer sel of None \<Rightarrow> Inl ValueError | Some corpus \<Rightarrow> tfidf_transform sk corpus docs)"

definition selector_scaler_transform :: "sklearn \<Rightarrow> selector \<Rightarrow> matrix \<Rightarrow> error + matrix" where
  "selector_scaler_transform sk sel m =
     (case scaler sel of None \<Rightarrow> Inl ValueError | Some fitted \<Rightarrow> scaler_transform sk fitted m)"

definition selector_pca_transform :: "sklearn \<Rightarrow> selector \<Rightarrow> matrix \<Rightarrow> error + matrix" where
  "selector_pca_transform sk sel m =
     (case pca sel of None \<Rightarrow> Inl ValueError | Some fitted \<Rightarrow> pca_transform sk fitted m)"

text \<open>The text features: fit when not fitted or asked to, else transform and fit on failure.\<close>

definition text_features ::
  "sklearn \<Rightarrow> selector \<Rightarrow> string list \<Rightarrow> bool \<Rightarrow> (error + matrix) \<times> selector" where
  "text_features sk sel text_data fit_transformers =
     (if \<not> is_fitted sel \<or> fit_transformers then
        (case tfidf_fit_transform sk text_data of
           Inl e \<Rightarrow> (Inl e, sel)
         | Inr m \<Rightarrow> (Inr m, sel\<lparr>vectorizer := Some text_data, is_fitted := True\<rparr>))
      else
        (case vectorizer_transform sk sel text_data of
           Inr m \<Rightarrow> (Inr m, sel)
         | Inl _ \<Rightarrow>
             (case tfidf_fit_transform sk text_data of
                Inl e \<Rightarrow> (Inl e, sel)
              | Inr m \<Rightarrow> (Inr m, sel\<lparr>vectorizer := Some text_data\<rparr>))))"

definition scale_features ::
  "sklearn \<Rightarrow> selector \<Rightarrow> matrix \<Rightarrow> bool \<Rightarrow> (error + matrix) \<times> selector" where
  "scale_features sk sel combined fit_transformers =
     (if fit_transformers then
        (case scaler_fit_transform sk combined of
           Inl e \<Rightarrow> (Inl e, sel)
         | Inr m \<Rightarrow> (Inr m, sel\<lparr>scaler := Some combined\<rparr>))
      else
        (case selector_scaler_transform sk sel combined of
           Inr m \<Rightarrow> (Inr m, sel)
         | Inl _ \<Rightarrow>
             (case scaler_fit_transform sk combined of
                Inl e \<Rightarrow> (Inl e, sel)
              | Inr m \<Rightarrow> (Inr m, sel\<lparr>scaler := Some combined\<rparr>))))"

text \<open>
  Returns the feature matrix and the listing ids, or the exception, and the selector as
  the call leaves it: an exception does not undo a fit made before it.
\<close>

definition build_feature_vectors ::
  "sklearn \<Rightarrow> selector \<Rightarrow> listing list \<Rightarrow> bool \<Rightarrow> (error + matrix \<times> nat list) \<times> selector" where
  "build_feature_vectors sk sel ls fit_transformers =
     (if ls = [] then (Inr ([], []), sel)
      else case extract_listing_features ls of
        (features, text_data) \<Rightarrow>
          (case text_features sk sel text_data fit_transformers of
             (Inl e, sel1) \<Rightarrow> (Inl e, sel1)
           | (Inr tf, sel1) \<Rightarrow>
               (case np_hstack features tf of
                  Inl e \<Rightarrow> (Inl e, sel1)
                | Inr combined \<Rightarrow>
                    (case scale_features sk sel1 combined fit_transformers of
                       (Inl e, sel2) \<Rightarrow> (Inl e, sel2)
                     | (Inr m, sel2) \<Rightarrow> (Inr (m, map listing_id ls), sel2)))))"

subsection \<open>\<open>_update_cluster_model\<close>\<close>

text \<open>\<open>shape[1]\<close> of a matrix with at least one row.\<close>

definition ncols :: "matrix \<Rightarrow> nat" where
  "ncols m = (case m of [] \<Rightarrow> 0 | r # _ \<Rightarrow> length r)"

text \<open>
  \<open>self.recent_listings_cache == recent_listings\<close>: \<open>None\<close> equals no list, and two
  lists of model instances are equal when their primary keys are, one by one.
\<close>

definition cache_hit :: "selector \<Rightarrow> listing list \<Rightarrow> bool" where
  "cache_hit sel recent_listings =
     (case recent_listings_cache sel of
        None \<Rightarrow> False
      | Some cached \<Rightarrow> map listing_id cached = map listing_id recent_listings)"

text \<open>The PCA step and the clustering, after the feature vectors are built.\<close>

definition fit_clusters :: "sklearn \<Rightarrow> selector \<Rightarrow> matrix \<Rightarrow> bool \<times> selector" where
  "fit_clusters sk sel feature_vectors =
     (case (if ncols feature_vectors > 10 then
              (case pca_fit_transform sk feature_vectors of
                 Inl e \<Rightarrow> (Inl e, sel)
               | Inr m \<Rightarrow> (Inr m, sel\<lparr>pca := Some feature_vectors\<rparr>))
            else (Inr feature_vectors, sel)) of
        (Inl e, sel1) \<Rightarrow> (False, sel1)
      | (Inr fv, sel1) \<Rightarrow>
          (case kmeans_fit sk fv of
             Inl e \<Rightarrow> (False, sel1)
           | Inr centres \<Rightarrow>
               (True, sel1\<lparr>cluster_centroids := Some centres, feature_cache := Some fv\<rparr>)))"

text \<open>
  Every exception of the body ends in the handler's \<open>return False\<close>; the cache
  assignment made before it stays.
\<close>

definition update_cluster_model :: "sklearn \<Rightarrow> selector \<Rightarrow> listing list \<Rightarrow> bool \<times> selector" where
  "update_cluster_model sk sel recent_listings =
     (if length recent_listings < 5 then (False, sel)
      else if cache_hit sel recent_listings then (True, sel)
      else (let sel1 = sel\<lparr>recent_listings_cache := Some recent_listings\<rparr>
            in case build_feature_vectors sk sel1 recent_listings True of
                 (Inl e, sel2) \<Rightarrow> (False, sel2)
               | (Inr (feature_vectors, _), sel2) \<Rightarrow>
                   (if length feature_vectors = 0 then (False, sel2)
                    else fit_clusters sk sel2 feature_vectors)))"

subsection \<open>\<open>_calculate_entropy_measure\<close>\<close>

text \<open>
  \<open>euclidean_distances(X, Y)\<close>: the matrix of the distances between the rows of
  \<open>X\<close> and those of \<open>Y\<close>; \<open>ValueError\<close> when the two differ in their number of
  columns. \<open>np.min\<close> and \<open>np.max\<close> run over all entries and raise on none.
\<close>

definition euclidean :: "real list \<Rightarrow> real list \<Rightarrow> real" where
  "euclidean x y = sqrt (sum_list (map2 (\<lambda>a b. (a - b)\<^sup>2) x y))"

definition euclidean_distances :: "matrix \<Rightarrow> matrix \<Rightarrow> error + matrix" where
  "euclidean_distances X Y =
     (if ncols X \<noteq> ncols Y then Inl ValueError
      else Inr (map (\<lambda>x. map (\<lambda>y. euclidean x y) Y) X))"

definition np_min :: "matrix \<Rightarrow> error + real" where
  "np_min m = (case concat m of [] \<Rightarrow> Inl ValueError | x # xs \<Rightarrow> Inr (fold min xs x))"

definition np_max :: "matrix \<Rightarrow> error + real" where
  "np_max m = (case concat m of [] \<Rightarrow> Inl ValueError | x # xs \<Rightarrow> Inr (fold max xs x))"

text \<open>
  \<open>RecordOfTheDay.objects.filter(listing__record__genres__overlap=genres)[:5]\<close>: the
  persisted selections whose listing's record shares a genre tag with the candidate, in
  the model's ordering, five at most.
\<close>

definition genres_overlap :: "string list \<Rightarrow> string list \<Rightarrow> bool" where
  "genres_overlap a b = list_ex (\<lambda>t. list_ex (\<lambda>t'. t' = t) b) a"

definition similar_records :: "database \<Rightarrow> listing \<Rightarrow> error + record_of_the_day list" where
  "similar_records db l =
     run_query db SimilarSelections
       (take 5 (filter (\<lambda>r. case find (\<lambda>l'. listing_id l' = rotd_listing r) (listings db) of
                              None \<Rightarrow> False
                            | Some l' \<Rightarrow> genres_overlap (genres (listing_record l'))
                                          (genres (listing_record l)))
                  (order_by_date_desc (selections db))))"

text \<open>From the distances on: normalise, clip, then scale by the novelty feedback.\<close>

definition entropy_from_distances :: "database \<Rightarrow> matrix \<Rightarrow> matrix \<Rightarrow> listing \<Rightarrow> error + real" where
  "entropy_from_distances db centroids feature_vector l =
     (case euclidean_distances feature_vector centroids of
        Inl e \<Rightarrow> Inl e
      | Inr distances \<Rightarrow>
     (case np_min distances of
        Inl e \<Rightarrow> Inl e
      | Inr min_distance \<Rightarrow>
     (case euclidean_distances centroids centroids of
        Inl e \<Rightarrow> Inl e
      | Inr centroid_distances \<Rightarrow>
     (case np_max centroid_distances of
        Inl e \<Rightarrow> Inl e
      | Inr max_possible_distance \<Rightarrow>
     (let entropy = (if max_possible_distance > 0
                     then min_distance / (max_possible_distance + 1 / 10 ^ 6)
                     else 1 / 2);
          entropy = np_clip entropy (1 / 10) (9 / 10)
      in case similar_records db l of
           Inl e \<Rightarrow> Inl e
         | Inr similar \<Rightarrow>
             (let avg_novelty = sum_list (map average_novelty similar)
                                / real (max 1 (length similar))
              in Inr (entropy * (1 + 3 / 10 * avg_novelty))))))))"

text \<open>
  The whole method: the random default without centroids, \<open>0.5\<close> for an empty feature
  matrix, a failed PCA transform or any other exception. Returns the entropy, the
  selector and the generator as the call leaves them.
\<close>

definition calculate_entropy_measure ::
  "sklearn \<Rightarrow> database \<Rightarrow> selector \<Rightarrow> listing \<Rightarrow> rng \<Rightarrow> real \<times> selector \<times> rng" where
  "calculate_entropy_measure sk db sel l g =
     (case cluster_centroids sel of
        None \<Rightarrow> (case np_random_uniform (3 / 10) (7 / 10) g of (x, g') \<Rightarrow> (x, sel, g'))
      | Some centroids \<Rightarrow>
          (case build_feature_vectors sk sel [l] False of
             (Inl e, sel1) \<Rightarrow> (1 / 2, sel1, g)
           | (Inr (feature_vector, _), sel1) \<Rightarrow>
               (if length feature_vector = 0 then (1 / 2, sel1, g)
                else case (if ncols feature_vector > 10
                           then selector_pca_transform sk sel1 feature_vector
                           else Inr feature_vector) of
                       Inl e \<Rightarrow> (1 / 2, sel1, g)
                     | Inr fv \<Rightarrow>
                         (case entropy_from_distances db centroids fv l of
                            Inl e \<Rightarrow> (1 / 2, sel1, g)
                          | Inr entropy \<Rightarrow> (entropy, sel1, g)))))"

subsection \<open>\<open>select_record_of_the_day\<close>\<close>

text \<open>
  The breakdown is a Python dict with string keys: an association list here, in the
  order the source writes the keys.
\<close>

datatype pyval = PyFloat real | PyInt int | PyStr string | PyNone

type_synonym breakdown = "(string \<times> pyval) list"

fun str_of_error :: "error \<Rightarrow> string" where
  "str_of_error ValueError = ''ValueError''"
| "str_of_error IndexError = ''IndexError''"
| "str_of_error DatabaseError = ''DatabaseError''"
| "str_of_error DoesNotExist = ''DoesNotExist''"
| "str_of_error IntegrityError = ''IntegrityError''"
| "str_of_error MultipleObjectsReturned = ''MultipleObjectsReturned''"
| "str_of_error ListingDoesNotExist = ''ListingDoesNotExist''"

text \<open>
  What a request runs in: the database, numpy's generator and the clock (seconds). The
  selector's methods read the database; the world is threaded through so that what they
  leave of it is part of their result.
\<close>

record world =
  db :: database
  random :: rng
  now :: int

text \<open>
  \<open>Listing.objects.filter(score__gt=0.5).order_by('-score')[:max_candidates]\<close>: a
  negative bound of the slice raises before the database is asked.
\<close>

definition eligible_query :: "database \<Rightarrow> int \<Rightarrow> error + listing list" where
  "eligible_query d max_candidates =
     (if max_candidates < 0 then Inl ValueError
      else run_query d EligibleListings
             (take (nat max_candidates)
                (order_by_score_desc (filter (\<lambda>l. score l > 1 / 2) (listings d)))))"

text \<open>The listings whose record was added in the last seven days, newest first, 100 at most.\<close>

definition recent_query :: "database \<Rightarrow> int \<Rightarrow> error + listing list" where
  "recent_query d t =
     (let recent_cutoff = t - 7 * 86400
      in run_query d RecentListings
           (take 100
              (sort_key (\<lambda>l. - added (listing_record l))
                 (filter (\<lambda>l. added (listing_record l) \<ge> recent_cutoff) (listings d)))))"

text \<open>\<open>Listing.objects.filter(score__gt=0).order_by('-score').first()\<close>.\<close>

definition fallback_query :: "database \<Rightarrow> query \<Rightarrow> error + listing option" where
  "fallback_query d q =
     run_query d q
       (case order_by_score_desc (filter (\<lambda>l. score l > 0) (listings d)) of
          [] \<Rightarrow> None
        | l # _ \<Rightarrow> Some l)"

text \<open>The five lists the loop appends to.\<close>

record candidate_terms =
  free_energies :: "real list"
  entropy_measures :: "real list"
  utility_terms :: "real list"
  entropy_terms :: "real list"
  listing_ids :: "nat list"

definition no_terms :: candidate_terms where
  "no_terms = \<lparr>free_energies = [], entropy_measures = [], utility_terms = [],
               entropy_terms = [], listing_ids = []\<rparr>"

fun candidate_loop ::
  "sklearn \<Rightarrow> database \<Rightarrow> real \<Rightarrow> listing list \<Rightarrow> candidate_terms \<Rightarrow> selector \<Rightarrow> rng
   \<Rightarrow> candidate_terms \<times> selector \<times> rng" where
  "candidate_loop sk d temperature [] acc sel g = (acc, sel, g)"
| "candidate_loop sk d temperature (l # ls) acc sel g =
     (case calculate_entropy_measure sk d sel l g of
        (entropy, sel', g') \<Rightarrow>
          (case calculate_free_energy l entropy temperature of
             (fe, utility, term) \<Rightarrow>
               candidate_loop sk d temperature ls
                 (acc\<lparr>free_energies := free_energies acc @ [fe],
                      entropy_measures := entropy_measures acc @ [entropy],
                      utility_terms := utility_terms acc @ [utility],
                      entropy_terms := entropy_terms acc @ [term],
                      listing_ids := listing_ids acc @ [listing_id l]\<rparr>)
                 sel' g'))"

text \<open>\<open>list.index\<close>: the first position of the value, \<open>ValueError\<close> without one.\<close>

fun list_index :: "'a list \<Rightarrow> 'a \<Rightarrow> error + nat" where
  "list_index [] x = Inl ValueError"
| "list_index (y # ys) x =
     (if y = x then Inr 0
      else case list_index ys x of Inl e \<Rightarrow> Inl e | Inr i \<Rightarrow> Inr (Suc i))"

definition make_breakdown ::
  "listing \<Rightarrow> candidate_terms \<Rightarrow> nat \<Rightarrow> real \<Rightarrow> real \<Rightarrow> nat \<Rightarrow> selector \<Rightarrow> breakdown" where
  "make_breakdown selected_listing terms selected_idx temperature selection_prob n sel =
     [(''model_score'', PyFloat (score selected_listing)),
      (''entropy_measure'', PyFloat (entropy_measures terms ! selected_idx)),
      (''system_temperature'', PyFloat temperature),
      (''utility_term'', PyFloat (utility_terms terms ! selected_idx)),
      (''entropy_term'', PyFloat (entropy_terms terms ! selected_idx)),
      (''free_energy'', PyFloat (free_energies terms ! selected_idx)),
      (''selection_probability'', PyFloat selection_prob),
      (''total_candidates'', PyInt (int n)),
      (''cluster_count'',
         PyInt (case cluster_centroids sel of None \<Rightarrow> 0 | Some cs \<Rightarrow> int (length cs))),
      (''selection_method'', PyStr ''thermodynamic_boltzmann'')]"

text \<open>
  The body of the outer \<open>try\<close>: the result or the exception, with the selector and the
  generator as the body leaves them.
\<close>

definition select_body ::
  "sklearn \<Rightarrow> selector \<Rightarrow> world \<Rightarrow> int
   \<Rightarrow> (error + listing option \<times> breakdown) \<times> selector \<times> rng" where
  "select_body sk sel w max_candidates =
     (case eligible_query (db w) max_candidates of
        Inl e \<Rightarrow> (Inl e, sel, random w)
      | Inr eligible_listings \<Rightarrow>
          (if eligible_listings = [] then (Inr (None, []), sel, random w)
           else case recent_query (db w) (now w) of
             Inl e \<Rightarrow> (Inl e, sel, random w)
           | Inr recent \<Rightarrow>
               (let recent_listings = (if recent = [] then eligible_listings else recent);
                    sel1 = snd (update_cluster_model sk sel recent_listings);
                    temperature = calculate_system_temperature (db w) eligible_listings
                in case candidate_loop sk (db w) temperature eligible_listings no_terms sel1
                          (random w) of
                     (terms, sel2, g2) \<Rightarrow>
                       (case boltzmann_sampling (free_energies terms) (listing_ids terms)
                               temperature g2 of
                          Inl e \<Rightarrow> (Inl e, sel2, g2)
                        | Inr ((selected_id, selection_prob), g3) \<Rightarrow>
                            (let selected_listing =
                                   (case find (\<lambda>l. listing_id l = selected_id) eligible_listings of
                                      Some l \<Rightarrow> l
                                    | None \<Rightarrow> hd eligible_listings)
                             in case list_index (listing_ids terms) selected_id of
                                  Inl e \<Rightarrow> (Inl e, sel2, g3)
                                | Inr selected_idx \<Rightarrow>
                                    (Inr (Some selected_listing,
                                          make_breakdown selected_listing terms selected_idx
                                            temperature selection_prob (length eligible_listings)
                                            sel2),
                                     sel2, g3))))))"

text \<open>
  The method: on an exception of the body, the highest-scored listing with a positive
  score (\<open>None\<close> without one) under \<open>error\<close> and \<open>selection_method\<close>; when that
  query raises too, \<open>None\<close> under \<open>error\<close> alone. The result is a sum so that
  "never raises" is a statement about it.
\<close>

definition select_record_of_the_day ::
  "sklearn \<Rightarrow> selector \<Rightarrow> world \<Rightarrow> int
   \<Rightarrow> (error + listing option \<times> breakdown) \<times> selector \<times> world" where
  "select_record_of_the_day sk sel w max_candidates =
     (case select_body sk sel w max_candidates of
        (Inr r, sel', g') \<Rightarrow> (Inr r, sel', w\<lparr>random := g'\<rparr>)
      | (Inl e, sel', g') \<Rightarrow>
          (case fallback_query (db w) FallbackListing of
             Inr fallback_listing \<Rightarrow>
               (Inr (fallback_listing,
                     [(''error'', PyStr (str_of_error e)),
                      (''selection_method'', PyStr ''fallback'')]),
                sel', w\<lparr>random := g'\<rparr>)
           | Inl _ \<Rightarrow>
               (Inr (None, [(''error'', PyStr (str_of_error e))]), sel', w\<lparr>random := g'\<rparr>)))"

section \<open>The dashboard (discogs/views.py)\<close>

text \<open>\<open>timezone.now().date()\<close>, as a day number.\<close>

definition today :: "world \<Rightarrow> int" where
  "today w = now w div 86400"

text \<open>\<open>RecordOfTheDay.objects.get(date=today)\<close>.\<close>

definition get_selection :: "database \<Rightarrow> int \<Rightarrow> error + record_of_the_day" where
  "get_selection d day =
     (if failing d GetSelection then Inl DatabaseError
      else case filter (\<lambda>r. date r = day) (selections d) of
             [] \<Rightarrow> Inl DoesNotExist
           | [r] \<Rightarrow> Inr r
           | _ \<Rightarrow> Inl MultipleObjectsReturned)"

text \<open>\<open>RecordOfTheDay.objects.filter(date=today).delete()\<close>.\<close>

definition delete_selection :: "database \<Rightarrow> int \<Rightarrow> error + database" where
  "delete_selection d day =
     (if failing d DeleteSelection then Inl DatabaseError
      else Inr (d\<lparr>selections := filter (\<lambda>r. date r \<noteq> day) (selections d)\<rparr>))"

text \<open>\<open>RecordOfTheDay.objects.create(...)\<close>: the date is unique.\<close>

definition create_selection :: "database \<Rightarrow> record_of_the_day \<Rightarrow> error + database" where
  "create_selection d row =
     (if failing d CreateSelection then Inl DatabaseError
      else if list_ex (\<lambda>r. date r = date row) (selections d) then Inl IntegrityError
      else Inr (d\<lparr>selections := selections d @ [row]\<rparr>))"

text \<open>\<open>breakdown.get(key, default)\<close> into a float, an integer or a string field.\<close>

definition get_float :: "breakdown \<Rightarrow> string \<Rightarrow> real \<Rightarrow> real" where
  "get_float b k dflt =
     (case map_of b k of Some (PyFloat x) \<Rightarrow> x | Some (PyInt i) \<Rightarrow> real_of_int i | _ \<Rightarrow> dflt)"

definition get_int :: "breakdown \<Rightarrow> string \<Rightarrow> int \<Rightarrow> int" where
  "get_int b k dflt = (case map_of b k of Some (PyInt i) \<Rightarrow> i | _ \<Rightarrow> dflt)"

definition get_str :: "breakdown \<Rightarrow> string \<Rightarrow> string \<Rightarrow> string" where
  "get_str b k dflt = (case map_of b k of Some (PyStr x) \<Rightarrow> x | _ \<Rightarrow> dflt)"

text \<open>The row the view creates from a winner and its breakdown; no votes yet.\<close>

definition selection_row :: "int \<Rightarrow> listing \<Rightarrow> breakdown \<Rightarrow> record_of_the_day" where
  "selection_row day l b =
     \<lparr>date = day, rotd_listing = listing_id l,
      model_score = get_float b ''model_score'' 0,
      entropy_measure = get_float b ''entropy_measure'' 0,
      system_temperature = get_float b ''system_temperature'' (1 / 2),
      utility_term = Some (get_float b ''utility_term'' 0),
      entropy_term = Some (get_float b ''entropy_term'' 0),
      free_energy = Some (get_float b ''free_energy'' 0),
      selection_probability = Some (get_float b ''selection_probability'' 0),
      total_candidates = Some (get_int b ''total_candidates'' 0),
      cluster_count = Some (get_int b ''cluster_count'' 0),
      selection_method = get_str b ''selection_method'' ''thermodynamic_boltzmann'',
      average_desirability = 0, average_novelty = 0\<rparr>"

definition opt_float :: "real option \<Rightarrow> pyval" where
  "opt_float x = (case x of None \<Rightarrow> PyNone | Some v \<Rightarrow> PyFloat v)"

definition opt_int :: "int option \<Rightarrow> pyval" where
  "opt_int x = (case x of None \<Rightarrow> PyNone | Some v \<Rightarrow> PyInt v)"

text \<open>The breakdown the view reads back from a persisted row.\<close>

definition persisted_breakdown :: "record_of_the_day \<Rightarrow> breakdown" where
  "persisted_breakdown r =
     [(''model_score'', PyFloat (model_score r)),
      (''entropy_measure'', PyFloat (entropy_measure r)),
      (''system_temperature'', PyFloat (system_temperature r)),
      (''utility_term'', opt_float (utility_term r)),
      (''entropy_term'', opt_float (entropy_term r)),
      (''free_energy'', opt_float (free_energy r)),
      (''selection_probability'', opt_float (selection_probability r)),
      (''total_candidates'', opt_int (total_candidates r)),
      (''cluster_count'', opt_int (cluster_count r)),
      (''selection_method'', PyStr (selection_method r))]"

text \<open>What the response says of the record of the day.\<close>

record response =
  record_of_the_day_data :: "listing option"
  record_of_the_day_obj :: "record_of_the_day option"
  breakdown_data :: breakdown

text \<open>
  The handler of \<open>RecordOfTheDay.DoesNotExist\<close>: run the selector, persist a winner
  that comes with a non-empty breakdown, otherwise answer with the highest-scored
  listing; on any exception answer with that listing and the error. An exception of
  this last query leaves the view.
\<close>

definition select_and_persist_body :: "sklearn \<Rightarrow> world \<Rightarrow> (error + response) \<times> world" where
  "select_and_persist_body sk w =
     (case select_record_of_the_day sk new_selector w 50 of
        (Inl e, _, w1) \<Rightarrow> (Inl e, w1)
      | (Inr (Some l, b), _, w1) \<Rightarrow>
          (if b \<noteq> [] then
             (let row = selection_row (today w) l b
              in case create_selection (db w1) row of
                   Inl e \<Rightarrow> (Inl e, w1)
                 | Inr d \<Rightarrow>
                     (Inr \<lparr>record_of_the_day_data = Some l, record_of_the_day_obj = Some row,
                           breakdown_data = b\<rparr>,
                      w1\<lparr>db := d\<rparr>))
           else
             (case fallback_query (db w1) ViewFallbackListing of
                Inl e \<Rightarrow> (Inl e, w1)
              | Inr l' \<Rightarrow>
                  (Inr \<lparr>record_of_the_day_data = l', record_of_the_day_obj = None,
                        breakdown_data = [(''selection_method'', PyStr ''fallback_highest_score'')]\<rparr>,
                   w1)))
      | (Inr (None, b), _, w1) \<Rightarrow>
          (case fallback_query (db w1) ViewFallbackListing of
             Inl e \<Rightarrow> (Inl e, w1)
           | Inr l' \<Rightarrow>
               (Inr \<lparr>record_of_the_day_data = l', record_of_the_day_obj = None,
                     breakdown_data = [(''selection_method'', PyStr ''fallback_highest_score'')]\<rparr>,
                w1)))"

definition select_and_persist :: "sklearn \<Rightarrow> world \<Rightarrow> error + response \<times> world" where
  "select_and_persist sk w =
     (case select_and_persist_body sk w of
        (Inr r, w1) \<Rightarrow> Inr (r, w1)
      | (Inl e, w1) \<Rightarrow>
          (case fallback_query (db w1) ViewFallbackListing of
             Inl e' \<Rightarrow> Inl e'
           | Inr l' \<Rightarrow>
               Inr (\<lparr>record_of_the_day_data = l', record_of_the_day_obj = None,
                     breakdown_data = [(''error'', PyStr (str_of_error e)),
                                       (''selection_method'', PyStr ''fallback_error'')]\<rparr>,
                    w1)))"

text \<open>
  \<open>DashboardAPIView.get\<close>, the record of the day in it. Without \<open>force_refresh\<close>
  the persisted row of today is read and answered from; with it the row is deleted and
  the selector is run, and its result is answered and not persisted. Only
  \<open>RecordOfTheDay.DoesNotExist\<close> is handled; any other exception leaves the view.
\<close>

definition dashboard_get :: "sklearn \<Rightarrow> world \<Rightarrow> bool \<Rightarrow> error + response \<times> world" where
  "dashboard_get sk w force_refresh =
     (case (if \<not> force_refresh then
              (case get_selection (db w) (today w) of
                 Inl e \<Rightarrow> Inl e
               | Inr obj \<Rightarrow> Inr (Some obj, w))
            else
              (case delete_selection (db w) (today w) of
                 Inl e \<Rightarrow> Inl e
               | Inr d \<Rightarrow> Inr (None, w\<lparr>db := d\<rparr>))) of
        Inl e \<Rightarrow> (if e = DoesNotExist then select_and_persist sk w else Inl e)
      | Inr (Some obj, w1) \<Rightarrow>
          (case find (\<lambda>l. listing_id l = rotd_listing obj) (listings (db w1)) of
             None \<Rightarrow> Inl ListingDoesNotExist
           | Some l \<Rightarrow>
               Inr (\<lparr>record_of_the_day_data = Some l, record_of_the_day_obj = Some obj,
                     breakdown_data = persisted_breakdown obj\<rparr>, w1))
      | Inr (None, w1) \<Rightarrow>
          (case select_record_of_the_day sk new_selector w1 50 of
             (Inl e, _, w2) \<Rightarrow> Inl e
           | (Inr (l, b), _, w2) \<Rightarrow>
               Inr (\<lparr>record_of_the_day_data = l, record_of_the_day_obj = None,
                     breakdown_data = b\<rparr>, w2)))"

text \<open>
  \<open>refresh_record_of_the_day_view\<close> (POST): delete today's row, run the selector
  and persist a winner that comes with a non-empty breakdown.
\<close>

datatype refresh_response = Refreshed | NoEligibleListings | RefreshError string

definition refresh_record_of_the_day_view :: "sklearn \<Rightarrow> world \<Rightarrow> refresh_response \<times> world" where
  "refresh_record_of_the_day_view sk w =
     (case delete_selection (db w) (today w) of
        Inl e \<Rightarrow> (RefreshError (str_of_error e), w)
      | Inr d \<Rightarrow>
          (case select_record_of_the_day sk new_selector (w\<lparr>db := d\<rparr>) 50 of
             (Inl e, _, w1) \<Rightarrow> (RefreshError (str_of_error e), w1)
           | (Inr (Some l, b), _, w1) \<Rightarrow>
               (if b \<noteq> [] then
                  (case create_selection (db w1) (selection_row (today w) l b) of
                     Inl e \<Rightarrow> (RefreshError (str_of_error e), w1)
                   | Inr d' \<Rightarrow> (Refreshed, w1\<lparr>db := d'\<rparr>))
                else (NoEligibleListings, w1))
           | (Inr (None, b), _, w1) \<Rightarrow> (NoEligibleListings, w1)))"

section \<open>The specification's temperature\<close>





section \<open>The fallback listing\<close>


section \<open>Example data\<close>

definition example_record :: record_row where
  "example_record =
     \<lparr>artist = ''Alice Coltrane'', title = ''Journey in Satchidananda'', label = ''Impulse'',
      wants = 300, haves = 100, added = 0, genres = [''Jazz''], styles = [''Modal''],
      year = Some 1971\<rparr>"

definition example_listing :: "nat \<Rightarrow> real \<Rightarrow> bool \<Rightarrow> listing" where
  "example_listing i s e =
     \<lparr>listing_id = i, listing_record = example_record, record_price = 25, score = s,
      evaluated = e\<rparr>"

text \<open>A database that answers every call, and one that answers none.\<close>

definition example_database :: "listing list \<Rightarrow> record_of_the_day list \<Rightarrow> database" where
  "example_database ls rs = \<lparr>listings = ls, selections = rs, failing = (\<lambda>q. False)\<rparr>"


text \<open>
  Estimators for the examples: no text features, a scaler that maps every row to
  \<open>[2]\<close>, and a clustering with the two centres \<open>[0]\<close> and \<open>[1]\<close>.
\<close>

definition example_sklearn :: sklearn where
  "example_sklearn =
     \<lparr>tfidf_fit_transform = (\<lambda>docs. Inr (map (\<lambda>d. []) docs)),
      tfidf_transform = (\<lambda>corpus docs. Inr (map (\<lambda>d. []) docs)),
      scaler_fit_transform = (\<lambda>m. Inr (map (\<lambda>r. [2]) m)),
      scaler_transform = (\<lambda>fitted m. Inr (map (\<lambda>r. [2]) m)),
      pca_fit_transform = (\<lambda>m. Inr m),
      pca_transform = (\<lambda>fitted m. Inr m),
      kmeans_fit = (\<lambda>m. Inr [[0], [1]])\<rparr>"


text \<open>A persisted selection of a day, of a listing, with its feedback averages.\<close>

definition example_selection :: "int \<Rightarrow> nat \<Rightarrow> real \<Rightarrow> real \<Rightarrow> record_of_the_day" where
  "example_selection day l desirability novelty =
     \<lparr>date = day, rotd_listing = l, model_score = 7 / 10, entropy_measure = 1 / 2,
      system_temperature = 6 / 10, utility_term = Some (- 7 / 10), entropy_term = Some (3 / 10),
      free_energy = Some (- 1), selection_probability = Some (1 / 5),
      total_candidates = Some 5, cluster_count = Some 2,
      selection_method = ''thermodynamic_boltzmann'',
      average_desirability = desirability, average_novelty = novelty\<rparr>"

definition example_world :: "database \<Rightarrow> world" where
  "example_world d = \<lparr>db = d, random = (\<lambda>n. 1 / 2), now = 86400\<rparr>"



text \<open>The eligible listing of the examples, and a world with this listing alone.\<close>

definition eligible_listing :: listing where
  "eligible_listing = example_listing 7 (9 / 10) True"

definition single_listing_world :: world where
  "single_listing_world = example_world (example_database [eligible_listing] [])"

text \<open>A world where today (day 1) has a persisted selection and one listing is eligible.\<close>

definition refresh_example_world :: world where
  "refresh_example_world =
     example_world (example_database [eligible_listing] [example_selection 1 7 0 0])"

text \<open>The breakdown the selector answers with in that world.\<close>

definition example_breakdown :: breakdown where
  "example_breakdown =
     [(''model_score'', PyFloat (9 / 10)),
      (''entropy_measure'', PyFloat (1 / 2)),
      (''system_temperature'', PyFloat (1 / 2)),
      (''utility_term'', PyFloat (- 9 / 10)),
      (''entropy_term'', PyFloat (1 / 4)),
      (''free_energy'', PyFloat (- 23 / 20)),
      (''selection_probability'', PyFloat 1),
      (''total_candidates'', PyInt 1),
      (''cluster_count'', PyInt 0),
      (''selection_method'', PyStr ''thermodynamic_boltzmann'')]"

section \<open>The free-energy evaluator\<close>

text \<open>
  C3. For a listing with quality score \<open>s\<close>, entropy measure \<open>e\<close> and temperature
  \<open>T\<close>, the evaluator returns exactly \<open>(utility - T * e, utility, T * e)\<close>, where the
  utility is \<open>- s\<close> if \<open>s > 0\<close> and \<open>- 1\<close> otherwise; so the free energy is within
  \<open>1e-5\<close> of \<open>utility - T * e\<close>, for all \<open>T > 0\<close> and \<open>e\<close> in \<open>[0.1, 0.9]\<close>
  (for all \<open>T\<close> and \<open>e\<close>, in fact).
\<close>

theorem free_energy_triple:
  "calculate_free_energy l e T =
     ((if score l > 0 then - score l else - 1) - T * e,
      (if score l > 0 then - score l else - 1),
      T * e)
   \<and> (case calculate_free_energy l e T of
        (fe, utility, term) \<Rightarrow> \<bar>fe - (utility - T * e)\<bar> \<le> 1 / 10 ^ 5)"
  by (simp add: calculate_free_energy_def Let_def)

section \<open>The novelty model\<close>

lemma text_features_cache:
  "recent_listings_cache (snd (text_features sk sel t f)) = recent_listings_cache sel"
  by (simp add: text_features_def split: sum.splits)

lemma scale_features_cache:
  "recent_listings_cache (snd (scale_features sk sel t f)) = recent_listings_cache sel"
  by (simp add: scale_features_def split: sum.splits)

lemma build_feature_vectors_cache:
  "recent_listings_cache (snd (build_feature_vectors sk sel ls f)) = recent_listings_cache sel"
  using text_features_cache[of sk sel "map text_content ls" f]
  apply (simp add: build_feature_vectors_def extract_listing_features_def
               split: sum.splits prod.splits)
  apply safe
   apply (metis scale_features_cache snd_conv)+
  done

lemma fit_clusters_cache:
  "recent_listings_cache (snd (fit_clusters sk sel m)) = recent_listings_cache sel"
  by (simp add: fit_clusters_def split: sum.splits prod.splits)

lemma update_cache:
  "5 \<le> length recent \<Longrightarrow> cache_hit (snd (update_cluster_model sk sel recent)) recent"
  using build_feature_vectors_cache[of sk "sel\<lparr>recent_listings_cache := Some recent\<rparr>" recent True]
  apply (simp add: update_cluster_model_def Let_def split: sum.splits prod.splits)
  apply (auto simp: cache_hit_def fit_clusters_cache)
  done

text \<open>
  C8. A refit over a window of fewer than five listings returns failure (a value, not an
  exception) and leaves the selector, its centroids among the rest, as it was. Without
  centroids the entropy measure of any candidate is the generator's next uniform sample
  scaled into \<open>[0.3, 0.7]\<close>.
\<close>

theorem refit_below_five:
  "(length recent < 5 \<longrightarrow>
      update_cluster_model sk sel recent = (False, sel)
      \<and> cluster_centroids (snd (update_cluster_model sk sel recent)) = cluster_centroids sel)
   \<and> (cluster_centroids sel = None \<and> 0 \<le> g 0 \<and> g 0 < 1 \<longrightarrow>
        calculate_entropy_measure sk d sel l g
          = (3 / 10 + (7 / 10 - 3 / 10) * g 0, sel, \<lambda>n. g (Suc n))
        \<and> 3 / 10 \<le> fst (calculate_entropy_measure sk d sel l g)
        \<and> fst (calculate_entropy_measure sk d sel l g) < 7 / 10)"
  by (simp add: update_cluster_model_def calculate_entropy_measure_def np_random_uniform_def
        random_sample_def)

theorem refit_below_five_witness:
  "length [example_listing 1 (9 / 10) True] < 5
   \<and> update_cluster_model example_sklearn new_selector [example_listing 1 (9 / 10) True]
       = (False, new_selector)
   \<and> cluster_centroids new_selector = None
   \<and> fst (calculate_entropy_measure example_sklearn (example_database [] []) new_selector
            (example_listing 1 (9 / 10) True) (\<lambda>n. 1 / 2)) = 1 / 2"
  using refit_below_five [of "[example_listing 1 (9 / 10) True]" example_sklearn new_selector
          "\<lambda>n. 1 / 2" "example_database [] []" "example_listing 1 (9 / 10) True"]
  by (simp add: new_selector_def)

text \<open>
  C9, as stated, fails on a window of fewer than five listings: the second call returns
  failure, as the first did.
\<close>

theorem refit_twice_small_window_fails:
  "fst (update_cluster_model example_sklearn
          (snd (update_cluster_model example_sklearn new_selector [])) []) = False"
  by (simp add: update_cluster_model_def)

text \<open>
  C9, amended. For a window of at least five listings, a second refit with the same
  window returns success and leaves the selector (centroids, fitted transformers, cache)
  exactly as the first call left it.
\<close>

theorem refit_twice_same_window:
  "5 \<le> length recent \<Longrightarrow>
   update_cluster_model sk (snd (update_cluster_model sk sel recent)) recent
     = (True, snd (update_cluster_model sk sel recent))"
  using update_cache[of recent sk sel]
  by (simp add: update_cluster_model_def[of sk "snd (update_cluster_model sk sel recent)"])

theorem refit_twice_same_window_witness:
  "5 \<le> length (map (\<lambda>i. example_listing i (9 / 10) True) [1, 2, 3, 4, 5])
   \<and> update_cluster_model example_sklearn
        (snd (update_cluster_model example_sklearn new_selector
                (map (\<lambda>i. example_listing i (9 / 10) True) [1, 2, 3, 4, 5])))
        (map (\<lambda>i. example_listing i (9 / 10) True) [1, 2, 3, 4, 5])
      = (True, snd (update_cluster_model example_sklearn new_selector
                      (map (\<lambda>i. example_listing i (9 / 10) True) [1, 2, 3, 4, 5])))"
  using refit_twice_same_window [of "map (\<lambda>i. example_listing i (9 / 10) True) [1, 2, 3, 4, 5]"
          example_sklearn new_selector]
  by simp

section \<open>The orchestrator\<close>

text \<open>
  C10. The selector reads the database and writes nothing: the database a call leaves is
  the one it found, both tables and all. Creating and deleting the persisted selection
  is the view's part.
\<close>

theorem select_writes_nothing:
  "db (snd (snd (select_record_of_the_day sk sel w max_candidates))) = db w
   \<and> now (snd (snd (select_record_of_the_day sk sel w max_candidates))) = now w"
  by (simp add: select_record_of_the_day_def split: sum.splits prod.splits)






section \<open>The temperature estimator\<close>












section \<open>The Boltzmann sampler\<close>















section \<open>What a selection round returns\<close>


















section \<open>The persisted selection\<close>



section \<open>A selection round on example data\<close>


lemma eligible_listing_fields:
  "listing_id eligible_listing = 7" "score eligible_listing = 9 / 10"
  "evaluated eligible_listing" "listing_record eligible_listing = example_record"
  by (simp_all add: eligible_listing_def example_listing_def)

lemma single_listing_world_fields:
  "db single_listing_world = example_database [eligible_listing] []"
  "random single_listing_world = (\<lambda>n. 1 / 2)" "now single_listing_world = 86400"
  by (simp_all add: single_listing_world_def example_world_def)

lemma single_eligible:
  "eligible_query (example_database [eligible_listing] []) 50 = Inr [eligible_listing]"
  by (simp add: eligible_query_def run_query_def order_by_score_desc_def example_database_def
        eligible_listing_fields)

lemma single_recent:
  "recent_query (example_database [eligible_listing] []) 86400 = Inr [eligible_listing]"
  by (simp add: recent_query_def run_query_def example_database_def eligible_listing_fields
        example_record_def)

lemma single_temperature:
  "calculate_system_temperature (example_database [eligible_listing] []) [eligible_listing]
     = 1 / 2"
  by (simp add: calculate_system_temperature_def system_temperature_body_def past_records_def
        run_query_def example_database_def order_by_date_desc_def uncertainty_factor_def
        positive_scores_def unevaluated_ratio_def eligible_listing_fields
        np_std_def np_var_def np_mean_def np_clip_def Let_def)

lemma single_update:
  "update_cluster_model example_sklearn new_selector [eligible_listing] = (False, new_selector)"
  by (simp add: update_cluster_model_def)

lemma single_loop:
  "candidate_loop example_sklearn (example_database [eligible_listing] []) (1 / 2)
     [eligible_listing] no_terms new_selector (\<lambda>n. 1 / 2)
   = (\<lparr>free_energies = [- (23 / 20)], entropy_measures = [1 / 2],
       utility_terms = [- (9 / 10)], entropy_terms = [1 / 4], listing_ids = [7]\<rparr>,
      new_selector, \<lambda>n. 1 / 2)"
  by (simp add: calculate_entropy_measure_def new_selector_def np_random_uniform_def
        random_sample_def calculate_free_energy_def no_terms_def eligible_listing_fields
        Let_def)

lemma single_sampling:
  "boltzmann_sampling [f] [7] (1 / 2) (\<lambda>n. 1 / 2) = Inr ((7, 1), \<lambda>n. 1 / 2)"
  by (simp add: boltzmann_sampling_def boltzmann_sampling_body_def probabilities_def
        boltzmann_weights_def np_random_choice_p_def np_cumsum_def searchsorted_right_def
        random_sample_def Let_def)

lemma single_select:
  "select_record_of_the_day example_sklearn new_selector single_listing_world 50
     = (Inr (Some eligible_listing, example_breakdown), new_selector, single_listing_world)"
proof -
  have li: "list_index [7::nat] 7 = Inr 0" by simp
  have fi: "find (\<lambda>l. listing_id l = 7) [eligible_listing] = Some eligible_listing"
    by (simp add: eligible_listing_fields)
  have cc: "cluster_centroids new_selector = None" by (simp add: new_selector_def)
  have w: "single_listing_world\<lparr>random := \<lambda>n. 1 / 2\<rparr> = single_listing_world"
    by (simp add: single_listing_world_def example_world_def)
  have body: "select_body example_sklearn new_selector single_listing_world 50
                = (Inr (Some eligible_listing, example_breakdown), new_selector, \<lambda>n. 1 / 2)"
    unfolding select_body_def single_listing_world_fields single_eligible
    by (simp add: single_recent single_update single_temperature Let_def single_loop
          single_sampling li fi eligible_listing_fields cc make_breakdown_def
          example_breakdown_def del: candidate_loop.simps)
  show ?thesis
    unfolding select_record_of_the_day_def body
    by (simp add: w)
qed











section \<open>A refresh on example data\<close>

lemma refresh_example_today: "today refresh_example_world = 1"
  by (simp add: refresh_example_world_def example_world_def today_def)

lemma refresh_example_delete:
  "delete_selection (db refresh_example_world) 1 = Inr (example_database [eligible_listing] [])"
  by (simp add: delete_selection_def refresh_example_world_def example_world_def
        example_database_def example_selection_def)

lemma refresh_example_deleted:
  "refresh_example_world\<lparr>db := example_database [eligible_listing] []\<rparr> = single_listing_world"
  by (simp add: refresh_example_world_def single_listing_world_def example_world_def)

lemma refresh_example_create:
  "create_selection (example_database [eligible_listing] [])
     (selection_row 1 eligible_listing example_breakdown)
   = Inr (example_database [eligible_listing]
            [selection_row 1 eligible_listing example_breakdown])"
  by (simp add: create_selection_def example_database_def)

text \<open>
  C6 asks every run of the pipeline to persist its winner under today's date, also the
  run a refresh triggers. In the dashboard view a read with \<open>force_refresh\<close> deletes
  today's row, runs the selector and answers with its winner, and persists nothing: the
  table of selections is left empty. The refresh view of the same module, on the same
  world, does persist the winner.
\<close>

theorem dashboard_refresh_not_persisted:
  "dashboard_get example_sklearn refresh_example_world True
     = Inr (\<lparr>record_of_the_day_data = Some eligible_listing,
             record_of_the_day_obj = None, breakdown_data = example_breakdown\<rparr>,
            single_listing_world)
   \<and> selections (db single_listing_world) = []
   \<and> refresh_record_of_the_day_view example_sklearn refresh_example_world
     = (Refreshed,
        example_world (example_database [eligible_listing]
          [selection_row 1 eligible_listing example_breakdown]))"
proof (intro conjI)
  show "selections (db single_listing_world) = []"
    by (simp add: single_listing_world_fields example_database_def)
next
  show "dashboard_get example_sklearn refresh_example_world True
     = Inr (\<lparr>record_of_the_day_data = Some eligible_listing,
             record_of_the_day_obj = None, breakdown_data = example_breakdown\<rparr>,
            single_listing_world)"
    unfolding dashboard_get_def
    by (simp add: refresh_example_today refresh_example_delete refresh_example_deleted
          single_select)
next
  have ne: "example_breakdown \<noteq> []" by (simp add: example_breakdown_def)
  have w: "single_listing_world
             \<lparr>db := example_database [eligible_listing]
                     [selection_row 1 eligible_listing example_breakdown]\<rparr>
           = example_world (example_database [eligible_listing]
                              [selection_row 1 eligible_listing example_breakdown])"
    by (simp add: single_listing_world_def example_world_def)
  show "refresh_record_of_the_day_view example_sklearn refresh_example_world
     = (Refreshed,
        example_world (example_database [eligible_listing]
          [selection_row 1 eligible_listing example_breakdown]))"
    unfolding refresh_record_of_the_day_view_def
    by (simp add: refresh_example_today refresh_example_delete refresh_example_deleted
          single_select single_listing_world_fields refresh_example_create ne w)
qed

end
